theory Spec2Isabelle
  imports Main
begin

section \<open>Scope of the model\<close>

text \<open>
  The development embeds \<^verbatim>\<open>app.py\<close>, a FastAPI application with two working endpoints:
  \<^verbatim>\<open>scrape_website\<close> (POST /scrape) and \<^verbatim>\<open>render_template\<close> (GET /render).

  The handlers are glue over libraries: \<^verbatim>\<open>requests\<close>, \<^verbatim>\<open>bs4\<close>, \<^verbatim>\<open>pymongo\<close>/\<^verbatim>\<open>bson\<close>,
  \<^verbatim>\<open>urllib.parse\<close> and the file system. The handlers themselves are transcribed statement by
  statement. The libraries enter as follows.
  \<^item> What the network answers, how HTML bytes are parsed and serialised, how a reference is
    resolved against a base URL and how the store builds, parses and prints identifiers are
    fields of the record \<open>env\<close>: the theorems hold for every such environment.
  \<^item> The parsed document is a tree of tags; \<^verbatim>\<open>find_all\<close> and \<^verbatim>\<open>Tag.get\<close> are defined on it
    the way bs4 searches a tree (document order, filter on the tag name and on attributes).
  \<^item> \<^verbatim>\<open>Response.raise_for_status\<close> is defined the way requests does it (an error for every
    status from 400 to 599).
  \<^item> \<^verbatim>\<open>urllib.parse.urljoin\<close> is also transcribed on its own, with the \<^verbatim>\<open>ValueError\<close> it may
    raise; the sample environment resolves references with it.
  \<^item> The file system is a map from paths to file contents, the MongoDB collection a list of
    documents in insertion order.
  \<^item> An exception is a value: a handler returns \<open>Inl (HTTPException status detail)\<close> where
    the source raises, and a \<^verbatim>\<open>requests.exceptions.RequestException\<close> is the \<open>Inl\<close> of a fetch.
    The source catches nothing else around its library calls, and the model lets those
    calls return: writing a file, querying the collection, parsing and resolving are total.
  \<^item> Strings are lists of 8-bit characters.
\<close>

section \<open>Python values\<close>

text \<open>\<^verbatim>\<open>str(n)\<close> for a non-negative integer, as the f-strings \<^verbatim>\<open>f"style_{idx}.css"\<close> print it.\<close>

definition digit_char :: "nat \<Rightarrow> char" where
  "digit_char d = char_of (48 + d)"

fun str_nat :: "nat \<Rightarrow> string" where
  "str_nat n = (if n < 10 then [digit_char n] else str_nat (n div 10) @ [digit_char (n mod 10)])"

declare str_nat.simps [simp del]

text \<open>\<^verbatim>\<open>sep.join(parts)\<close>.\<close>

fun str_join :: "string \<Rightarrow> string list \<Rightarrow> string" where
  "str_join sep [] = []"
| "str_join sep [x] = x"
| "str_join sep (x # y # ys) = x @ sep @ str_join sep (y # ys)"

text \<open>\<^verbatim>\<open>s.startswith(p)\<close>.\<close>

fun startswith :: "string \<Rightarrow> string \<Rightarrow> bool" where
  "startswith s [] = True"
| "startswith [] (p # ps) = False"
| "startswith (c # cs) (p # ps) = (c = p \<and> startswith cs ps)"

text \<open>\<^verbatim>\<open>os.path.join(a, b)\<close> of posixpath, for two components.\<close>

definition os_path_join :: "string \<Rightarrow> string \<Rightarrow> string" where
  "os_path_join a b =
     (if startswith b ''/'' then b
      else if a = [] \<or> last a = CHR ''/'' then a @ b
      else a @ ''/'' @ b)"

section \<open>The parsed document (bs4)\<close>

text \<open>
  A tag has a name, its attributes as the dictionary \<^verbatim>\<open>Tag.attrs\<close> (an association list
  read with \<open>map_of\<close>) and its children. Attribute values are the strings of the markup;
  the token list bs4 keeps for a multi-valued attribute such as \<^verbatim>\<open>rel\<close> is computed from
  the string where the search needs it.
\<close>

datatype node =
    Tag (tag_name: string) (tag_attrs: "(string \<times> string) list") (tag_contents: "node list")
  | NavigableString string

text \<open>\<^verbatim>\<open>tag.get(key)\<close>: \<open>None\<close> when the attribute is absent.\<close>

fun tag_get :: "node \<Rightarrow> string \<Rightarrow> string option" where
  "tag_get (Tag n as cs) k = map_of as k"
| "tag_get (NavigableString s) k = None"

text \<open>The tags below a node, the node included, in document order.\<close>

fun tags_of :: "node \<Rightarrow> node list" where
  "tags_of (Tag n as cs) = Tag n as cs # concat (map tags_of cs)"
| "tags_of (NavigableString s) = []"

text \<open>\<^verbatim>\<open>soup.descendants\<close> restricted to tags; a soup is the list of its top-level nodes.\<close>

definition descendant_tags :: "node list \<Rightarrow> node list" where
  "descendant_tags soup = concat (map tags_of soup)"

text \<open>Python's whitespace among the 8-bit characters, as the pattern \<^verbatim>\<open>\S+\<close> sees it.\<close>

definition py_isspace :: "char \<Rightarrow> bool" where
  "py_isspace c = ((of_char c :: nat) \<in> {9, 10, 11, 12, 13, 28, 29, 30, 31, 32, 133, 160})"

text \<open>\<^verbatim>\<open>nonwhitespace_re.findall(value)\<close>: the maximal runs without whitespace.\<close>

fun nonwhitespace_findall :: "string \<Rightarrow> string \<Rightarrow> string list" where
  "nonwhitespace_findall cur [] = (if cur = [] then [] else [cur])"
| "nonwhitespace_findall cur (c # cs) =
     (if py_isspace c
      then (if cur = [] then nonwhitespace_findall [] cs else cur # nonwhitespace_findall [] cs)
      else nonwhitespace_findall (cur @ [c]) cs)"

text \<open>The attributes bs4's HTML tree builders hold as token lists, by tag name.\<close>

definition cdata_list_attribute :: "string \<Rightarrow> string \<Rightarrow> bool" where
  "cdata_list_attribute tname k =
     (k \<in> set [''class'', ''accesskey'', ''dropzone'']
      \<or> (tname \<in> set [''a'', ''link''] \<and> k \<in> set [''rel'', ''rev''])
      \<or> (tname \<in> set [''td'', ''th''] \<and> k = ''headers'')
      \<or> (tname = ''form'' \<and> k = ''accept-charset'')
      \<or> (tname = ''object'' \<and> k = ''archive'')
      \<or> (tname = ''area'' \<and> k = ''rel'')
      \<or> (tname = ''icon'' \<and> k = ''sizes'')
      \<or> (tname = ''iframe'' \<and> k = ''sandbox'')
      \<or> (tname = ''output'' \<and> k = ''for''))"

text \<open>
  The two attribute filters the handlers use: a string (\<^verbatim>\<open>{"rel": "stylesheet"}\<close>) and
  \<^verbatim>\<open>True\<close> (\<^verbatim>\<open>{"src": True}\<close>), which matches every value that is not \<^verbatim>\<open>None\<close>.
\<close>

datatype attr_filter = MatchStr string | MatchTrue

text \<open>
  \<^verbatim>\<open>SoupStrainer._matches\<close> for one attribute: a token list matches a string when one
  token equals it or the tokens joined by a blank equal it; a plain value matches when it
  is equal; an absent attribute matches neither filter.
\<close>

fun matches_attr :: "node \<Rightarrow> string \<times> attr_filter \<Rightarrow> bool" where
  "matches_attr t (k, MatchTrue) = (tag_get t k \<noteq> None)"
| "matches_attr t (k, MatchStr s) =
     (case tag_get t k of
        None \<Rightarrow> False
      | Some v \<Rightarrow>
          if cdata_list_attribute (tag_name t) k
          then (let toks = nonwhitespace_findall [] v
                in s \<in> set toks \<or> str_join '' '' toks = s)
          else v = s)"

text \<open>\<^verbatim>\<open>soup.find_all(name, attrs)\<close>: every descendant tag with that name that passes all filters.\<close>

definition find_all :: "node list \<Rightarrow> string \<Rightarrow> (string \<times> attr_filter) list \<Rightarrow> node list" where
  "find_all soup nm attrs =
     filter (\<lambda>t. tag_name t = nm \<and> list_all (matches_attr t) attrs) (descendant_tags soup)"

section \<open>HTTP client (requests)\<close>

record response =
  resp_status_code :: nat
  resp_reason :: string
  resp_url :: string
  resp_content :: string
  resp_text :: string

text \<open>A \<^verbatim>\<open>RequestException\<close> (or a subclass such as \<^verbatim>\<open>HTTPError\<close>) with its \<^verbatim>\<open>str(e)\<close>.\<close>

datatype request_exception = RequestException (str_exc: string)

text \<open>\<^verbatim>\<open>response.raise_for_status()\<close>.\<close>

definition raise_for_status :: "response \<Rightarrow> request_exception + unit" where
  "raise_for_status r =
     (if 400 \<le> resp_status_code r \<and> resp_status_code r < 500
      then Inl (RequestException (str_nat (resp_status_code r) @ '' Client Error: ''
                  @ resp_reason r @ '' for url: '' @ resp_url r))
      else if 500 \<le> resp_status_code r \<and> resp_status_code r < 600
      then Inl (RequestException (str_nat (resp_status_code r) @ '' Server Error: ''
                  @ resp_reason r @ '' for url: '' @ resp_url r))
      else Inr ())"

section \<open>The store and the world\<close>

type_synonym objectid = string

record document =
  doc_id :: objectid
  doc_url :: string
  doc_html :: string
  doc_css_files :: "string list"
  doc_js_files :: "string list"

record world =
  files :: "string \<rightharpoonup> string"
  collection :: "document list"

text \<open>
  The environment of a request. \<open>new_ObjectId\<close> is the identifier \<^verbatim>\<open>insert_one\<close> gives
  a document that has none, \<open>ObjectId\<close> the constructor from a string (\<open>None\<close> where it
  raises), \<open>str_ObjectId\<close> its \<^verbatim>\<open>str\<close>.
\<close>

record env =
  requests_get :: "string \<Rightarrow> request_exception + response"
  BeautifulSoup :: "string \<Rightarrow> node list"
  prettify :: "node list \<Rightarrow> string"
  urljoin :: "string \<Rightarrow> string \<Rightarrow> string"
  new_ObjectId :: "document list \<Rightarrow> objectid"
  ObjectId :: "string \<Rightarrow> objectid option"
  str_ObjectId :: "objectid \<Rightarrow> string"

text \<open>\<^verbatim>\<open>collection.find_one({"url": url})\<close> and \<^verbatim>\<open>collection.find_one({"_id": oid})\<close>.\<close>

definition find_one_url :: "document list \<Rightarrow> string \<Rightarrow> document option" where
  "find_one_url docs u = find (\<lambda>d. doc_url d = u) docs"


section \<open>The handlers\<close>

datatype http_exception = HTTPException (exc_status_code: nat) (exc_detail: string)

datatype http_response =
    RedirectResponse (redirect_url: string) (redirect_status_code: nat)
  | TemplateResponse string string "string list" "string list"

definition STATIC_DIR :: string where "STATIC_DIR = ''static''"
definition CSS_DIR :: string where "CSS_DIR = os_path_join STATIC_DIR ''css''"
definition JS_DIR :: string where "JS_DIR = os_path_join STATIC_DIR ''js''"

text \<open>
  The pattern \<^verbatim>\<open>r = requests.get(u); r.raise_for_status()\<close> inside a
  \<^verbatim>\<open>try ... except RequestException\<close>, used for the page and for every asset.
\<close>

definition fetch :: "env \<Rightarrow> string \<Rightarrow> request_exception + response" where
  "fetch e u =
     (case requests_get e u of
        Inl ex \<Rightarrow> Inl ex
      | Inr r \<Rightarrow> (case raise_for_status r of Inl ex \<Rightarrow> Inl ex | Inr _ \<Rightarrow> Inr r))"

text \<open>
  The body of the loop over \<^verbatim>\<open>enumerate(soup.find_all("link", {"rel": "stylesheet"}))\<close>;
  the loop state is the list \<^verbatim>\<open>css_files\<close> and the file system.
\<close>

fun save_css :: "env \<Rightarrow> string \<Rightarrow> nat \<times> node \<Rightarrow> string list \<times> (string \<rightharpoonup> string)
    \<Rightarrow> string list \<times> (string \<rightharpoonup> string)" where
  "save_css e url (idx, link_tag) (css_files, fs) =
     (case tag_get link_tag ''href'' of
        None \<Rightarrow> (css_files, fs)
      | Some href \<Rightarrow>
          if href = [] then (css_files, fs)
          else
            (let css_url = urljoin e url href in
             case fetch e css_url of
               Inl ex \<Rightarrow> (css_files, fs)
             | Inr css_response \<Rightarrow>
                 (let css_filename = ''style_'' @ str_nat idx @ ''.css'';
                      css_path = os_path_join CSS_DIR css_filename
                  in (css_files @ [''/static/css/'' @ css_filename],
                      fs(css_path \<mapsto> resp_text css_response)))))"

text \<open>The body of the loop over \<^verbatim>\<open>enumerate(soup.find_all("script", {"src": True}))\<close>.\<close>

fun save_js :: "env \<Rightarrow> string \<Rightarrow> nat \<times> node \<Rightarrow> string list \<times> (string \<rightharpoonup> string)
    \<Rightarrow> string list \<times> (string \<rightharpoonup> string)" where
  "save_js e url (idx, script_tag) (js_files, fs) =
     (case tag_get script_tag ''src'' of
        None \<Rightarrow> (js_files, fs)
      | Some src \<Rightarrow>
          if src = [] then (js_files, fs)
          else
            (let js_url = urljoin e url src in
             case fetch e js_url of
               Inl ex \<Rightarrow> (js_files, fs)
             | Inr js_response \<Rightarrow>
                 (let js_filename = ''script_'' @ str_nat idx @ ''.js'';
                      js_path = os_path_join JS_DIR js_filename
                  in (js_files @ [''/static/js/'' @ js_filename],
                      fs(js_path \<mapsto> resp_text js_response)))))"

text \<open>The tags the two loops run over.\<close>

definition link_tags :: "node list \<Rightarrow> node list" where
  "link_tags soup = find_all soup ''link'' [(''rel'', MatchStr ''stylesheet'')]"

definition script_tags :: "node list \<Rightarrow> node list" where
  "script_tags soup = find_all soup ''script'' [(''src'', MatchTrue)]"

text \<open>\<^verbatim>\<open>scrape_website(url)\<close>: the result of the request and the world it leaves.\<close>

definition scrape_website :: "env \<Rightarrow> string \<Rightarrow> world \<Rightarrow> (http_exception + http_response) \<times> world" where
  "scrape_website e url w =
     (case fetch e url of
        Inl ex \<Rightarrow> (Inl (HTTPException 400 (''Failed to fetch the URL: '' @ str_exc ex)), w)
      | Inr response \<Rightarrow>
          (let soup = BeautifulSoup e (resp_content response);
               html_content = prettify e soup;
               (css_files, fs1) = fold (save_css e url) (enumerate 0 (link_tags soup)) ([], files w);
               (js_files, fs2) = fold (save_js e url) (enumerate 0 (script_tags soup)) ([], fs1);
               w2 = w\<lparr>files := fs2\<rparr>
           in if find_one_url (collection w2) url \<noteq> None
              then (Inl (HTTPException 400 ''This URL has already been scraped.''), w2)
              else
                (let oid = new_ObjectId e (collection w2);
                     doc = \<lparr>doc_id = oid, doc_url = url, doc_html = html_content,
                            doc_css_files = css_files, doc_js_files = js_files\<rparr>
                 in (Inr (RedirectResponse (''/render/'' @ str_ObjectId e oid) 303),
                     w2\<lparr>collection := collection w2 @ [doc]\<rparr>))))"



section \<open>URL resolution (urllib.parse)\<close>

text \<open>
  \<^verbatim>\<open>urljoin\<close> is \<^verbatim>\<open>urllib.parse.urljoin\<close> of the standard library (CPython 3.11,
  \<^verbatim>\<open>Lib/urllib/parse.py\<close>), transcribed for \<^verbatim>\<open>str\<close> arguments function by function. Two steps
  of \<^verbatim>\<open>urlsplit\<close> lean on other modules and are parameters: the check of a host in square
  brackets (\<^verbatim>\<open>ipaddress\<close>, \<^verbatim>\<open>re\<close>; the field gives the message of the \<^verbatim>\<open>ValueError\<close> where the
  check raises) and Unicode normalisation (\<^verbatim>\<open>unicodedata\<close>). A \<^verbatim>\<open>ValueError\<close> is the
  \<open>Inl\<close> of the result.
\<close>

record parse_deps =
  check_bracketed_host :: "string \<Rightarrow> string option"
  normalize_NFKC :: "string \<Rightarrow> string"

datatype value_error = ValueError string

definition uses_relative :: "string list" where
  "uses_relative = ['''', ''ftp'', ''http'', ''gopher'', ''nntp'', ''imap'',
                    ''wais'', ''file'', ''https'', ''shttp'', ''mms'',
                    ''prospero'', ''rtsp'', ''rtsps'', ''rtspu'', ''sftp'',
                    ''svn'', ''svn+ssh'', ''ws'', ''wss'']"

definition uses_netloc :: "string list" where
  "uses_netloc = ['''', ''ftp'', ''http'', ''gopher'', ''nntp'', ''telnet'',
                  ''imap'', ''wais'', ''file'', ''mms'', ''https'', ''shttp'',
                  ''snews'', ''prospero'', ''rtsp'', ''rtsps'', ''rtspu'', ''rsync'',
                  ''svn'', ''svn+ssh'', ''sftp'', ''nfs'', ''git'', ''git+ssh'',
                  ''ws'', ''wss'']"

definition uses_params :: "string list" where
  "uses_params = ['''', ''ftp'', ''hdl'', ''prospero'', ''http'', ''imap'',
                  ''https'', ''shttp'', ''rtsp'', ''rtsps'', ''rtspu'', ''sip'',
                  ''sips'', ''mms'', ''sftp'', ''tel'']"

definition scheme_chars :: string where
  "scheme_chars = ''abcdefghijklmnopqrstuvwxyz'' @ ''ABCDEFGHIJKLMNOPQRSTUVWXYZ''
                  @ ''0123456789'' @ ''+-.''"

text \<open>The characters from \<^verbatim>\<open>\x00\<close> to the blank, and tab, carriage return and line feed.\<close>

definition WHATWG_C0_CONTROL_OR_SPACE :: "char \<Rightarrow> bool" where
  "WHATWG_C0_CONTROL_OR_SPACE c = ((of_char c :: nat) \<le> 32)"

definition UNSAFE_URL_BYTES_TO_REMOVE :: "char list" where
  "UNSAFE_URL_BYTES_TO_REMOVE = [char_of (9 :: nat), char_of (13 :: nat), char_of (10 :: nat)]"

text \<open>\<^verbatim>\<open>s.find(c, start)\<close> as an option, \<^verbatim>\<open>s.rfind(c)\<close> likewise.\<close>

fun str_find :: "string \<Rightarrow> char \<Rightarrow> nat \<Rightarrow> nat option" where
  "str_find [] c start = None"
| "str_find (x # xs) c 0 = (if x = c then Some 0 else map_option Suc (str_find xs c 0))"
| "str_find (x # xs) c (Suc k) = map_option Suc (str_find xs c k)"

definition str_rfind :: "string \<Rightarrow> char \<Rightarrow> nat option" where
  "str_rfind s c =
     (case str_find (rev s) c 0 of None \<Rightarrow> None | Some j \<Rightarrow> Some (length s - 1 - j))"

text \<open>\<^verbatim>\<open>s.split(c)\<close> and \<^verbatim>\<open>s.split(c, 1)\<close> for a one-character separator.\<close>

fun str_split :: "string \<Rightarrow> char \<Rightarrow> string list" where
  "str_split [] c = [[]]"
| "str_split (x # xs) c =
     (if x = c then [] # str_split xs c
      else (case str_split xs c of [] \<Rightarrow> [[x]] | p # ps \<Rightarrow> (x # p) # ps))"

definition str_split1 :: "string \<Rightarrow> char \<Rightarrow> string \<times> string" where
  "str_split1 s c = (takeWhile (\<lambda>x. x \<noteq> c) s, drop 1 (dropWhile (\<lambda>x. x \<noteq> c) s))"

text \<open>\<^verbatim>\<open>s.lower()\<close> on the characters a scheme may have.\<close>

definition ascii_lower :: "char \<Rightarrow> char" where
  "ascii_lower c =
     (if 65 \<le> (of_char c :: nat) \<and> (of_char c :: nat) \<le> 90
      then char_of ((of_char c :: nat) + 32) else c)"

definition ascii_alpha :: "char \<Rightarrow> bool" where
  "ascii_alpha c =
     ((65 \<le> (of_char c :: nat) \<and> (of_char c :: nat) \<le> 90)
      \<or> (97 \<le> (of_char c :: nat) \<and> (of_char c :: nat) \<le> 122))"

definition str_isascii :: "string \<Rightarrow> bool" where
  "str_isascii s = list_all (\<lambda>c. (of_char c :: nat) < 128) s"

definition splitnetloc :: "string \<Rightarrow> nat \<Rightarrow> string \<times> string" where
  "splitnetloc url start =
     (let delim = fold (\<lambda>c d. case str_find url c start of None \<Rightarrow> d | Some wdelim \<Rightarrow> min d wdelim)
                    ''/?#'' (length url)
      in (drop start (take delim url), drop delim url))"

definition checknetloc :: "parse_deps \<Rightarrow> string \<Rightarrow> value_error + unit" where
  "checknetloc deps netloc =
     (if netloc = [] \<or> str_isascii netloc then Inr ()
      else
        (let n = filter (\<lambda>c. c \<notin> set ''@:#?'') netloc;
             netloc2 = normalize_NFKC deps n
         in if n = netloc2 then Inr ()
            else if \<exists>c \<in> set ''/?#@:''. c \<in> set netloc2
            then Inl (ValueError (''netloc '' @ [CHR 0x27] @ netloc @ [CHR 0x27]
                        @ '' contains invalid characters under NFKC normalization''))
            else Inr ()))"

text \<open>\<^verbatim>\<open>urlsplit(url, scheme)\<close>: scheme, netloc, path, query, fragment.\<close>

definition urlsplit :: "parse_deps \<Rightarrow> string \<Rightarrow> string
    \<Rightarrow> value_error + (string \<times> string \<times> string \<times> string \<times> string)" where
  "urlsplit deps url0 scheme0 =
     (let url1 = filter (\<lambda>c. c \<notin> set UNSAFE_URL_BYTES_TO_REMOVE)
                   (dropWhile WHATWG_C0_CONTROL_OR_SPACE url0);
          scheme1 = filter (\<lambda>c. c \<notin> set UNSAFE_URL_BYTES_TO_REMOVE)
                      (rev (dropWhile WHATWG_C0_CONTROL_OR_SPACE
                         (rev (dropWhile WHATWG_C0_CONTROL_OR_SPACE scheme0))));
          (scheme, url2) =
             (case str_find url1 CHR '':'' 0 of
                None \<Rightarrow> (scheme1, url1)
              | Some i \<Rightarrow>
                  if 0 < i \<and> (of_char (hd url1) :: nat) < 128 \<and> ascii_alpha (hd url1)
                     \<and> list_all (\<lambda>c. c \<in> set scheme_chars) (take i url1)
                  then (map ascii_lower (take i url1), drop (i + 1) url1)
                  else (scheme1, url1))
      in if take 2 url2 = ''//''
         then
           (let (netloc, url3) = splitnetloc url2 2 in
            if (CHR ''['' \<in> set netloc \<and> CHR '']'' \<notin> set netloc)
               \<or> (CHR '']'' \<in> set netloc \<and> CHR ''['' \<notin> set netloc)
            then Inl (ValueError ''Invalid IPv6 URL'')
            else
              (case (if CHR ''['' \<in> set netloc \<and> CHR '']'' \<in> set netloc
                     then check_bracketed_host deps
                            (takeWhile (\<lambda>c. c \<noteq> CHR '']'')
                               (drop 1 (dropWhile (\<lambda>c. c \<noteq> CHR ''['') netloc)))
                     else None) of
                 Some msg \<Rightarrow> Inl (ValueError msg)
               | None \<Rightarrow>
                   (let (url4, fragment) =
                          (if CHR ''#'' \<in> set url3 then str_split1 url3 CHR ''#'' else (url3, []));
                        (url5, query) =
                          (if CHR ''?'' \<in> set url4 then str_split1 url4 CHR ''?'' else (url4, []))
                    in case checknetloc deps netloc of
                         Inl err \<Rightarrow> Inl err
                       | Inr _ \<Rightarrow> Inr (scheme, netloc, url5, query, fragment))))
         else
           (let (url4, fragment) =
                  (if CHR ''#'' \<in> set url2 then str_split1 url2 CHR ''#'' else (url2, []));
                (url5, query) =
                  (if CHR ''?'' \<in> set url4 then str_split1 url4 CHR ''?'' else (url4, []))
            in Inr (scheme, [], url5, query, fragment)))"

definition splitparams :: "string \<Rightarrow> string \<times> string" where
  "splitparams url =
     (case (if CHR ''/'' \<in> set url
            then (case str_rfind url CHR ''/'' of
                    None \<Rightarrow> str_find url CHR '';'' 0
                  | Some k \<Rightarrow> str_find url CHR '';'' k)
            else str_find url CHR '';'' 0) of
        None \<Rightarrow> (if CHR ''/'' \<in> set url then (url, []) else (butlast url, url))
      | Some i \<Rightarrow> (take i url, drop (i + 1) url))"

text \<open>\<^verbatim>\<open>urlparse(url, scheme)\<close>: scheme, netloc, path, params, query, fragment.\<close>

definition urlparse :: "parse_deps \<Rightarrow> string \<Rightarrow> string
    \<Rightarrow> value_error + (string \<times> string \<times> string \<times> string \<times> string \<times> string)" where
  "urlparse deps url scheme0 =
     (case urlsplit deps url scheme0 of
        Inl err \<Rightarrow> Inl err
      | Inr (scheme, netloc, path, query, fragment) \<Rightarrow>
          if scheme \<in> set uses_params \<and> CHR '';'' \<in> set path
          then (let (path', params) = splitparams path
                in Inr (scheme, netloc, path', params, query, fragment))
          else Inr (scheme, netloc, path, [], query, fragment))"

definition urlunsplit :: "string \<times> string \<times> string \<times> string \<times> string \<Rightarrow> string" where
  "urlunsplit comps =
     (case comps of (scheme, netloc, url0, query, fragment) \<Rightarrow>
        (let url1 = (if netloc \<noteq> [] \<or> (scheme \<noteq> [] \<and> scheme \<in> set uses_netloc)
                        \<or> take 2 url0 = ''//''
                     then ''//'' @ netloc
                          @ (if url0 \<noteq> [] \<and> take 1 url0 \<noteq> ''/'' then ''/'' @ url0 else url0)
                     else url0);
             url2 = (if scheme \<noteq> [] then scheme @ '':'' @ url1 else url1);
             url3 = (if query \<noteq> [] then url2 @ ''?'' @ query else url2)
         in if fragment \<noteq> [] then url3 @ ''#'' @ fragment else url3))"

definition urlunparse :: "string \<times> string \<times> string \<times> string \<times> string \<times> string \<Rightarrow> string" where
  "urlunparse comps =
     (case comps of (scheme, netloc, url, params, query, fragment) \<Rightarrow>
        urlunsplit (scheme, netloc, (if params \<noteq> [] then url @ '';'' @ params else url),
                    query, fragment))"

text \<open>The loop of \<^verbatim>\<open>urljoin\<close> that resolves the dot segments.\<close>

fun resolve_segment :: "string \<Rightarrow> string list \<Rightarrow> string list" where
  "resolve_segment seg resolved_path =
     (if seg = ''..'' then butlast resolved_path
      else if seg = ''.'' then resolved_path
      else resolved_path @ [seg])"

text \<open>\<^verbatim>\<open>segments[1:-1] = filter(None, segments[1:-1])\<close>.\<close>

definition filter_inner :: "string list \<Rightarrow> string list" where
  "filter_inner segments =
     (if length segments < 2 then segments
      else hd segments # filter (\<lambda>s. s \<noteq> []) (butlast (tl segments)) @ [last segments])"

definition urllib_parse_urljoin :: "parse_deps \<Rightarrow> string \<Rightarrow> string \<Rightarrow> value_error + string" where
  "urllib_parse_urljoin deps base url =
     (if base = [] then Inr url
      else if url = [] then Inr base
      else
        (case urlparse deps base [] of
           Inl err \<Rightarrow> Inl err
         | Inr (bscheme, bnetloc, bpath, bparams, bquery, bfragment) \<Rightarrow>
             (case urlparse deps url bscheme of
                Inl err \<Rightarrow> Inl err
              | Inr (scheme, netloc0, path, params, query, fragment) \<Rightarrow>
                  if scheme \<noteq> bscheme \<or> scheme \<notin> set uses_relative then Inr url
                  else if scheme \<in> set uses_netloc \<and> netloc0 \<noteq> []
                  then Inr (urlunparse (scheme, netloc0, path, params, query, fragment))
                  else
                    (let netloc = (if scheme \<in> set uses_netloc then bnetloc else netloc0) in
                     if path = [] \<and> params = []
                     then Inr (urlunparse (scheme, netloc, bpath, bparams,
                                 (if query = [] then bquery else query), fragment))
                     else
                       (let base_parts0 = str_split bpath CHR ''/'';
                            base_parts = (if last base_parts0 \<noteq> [] then butlast base_parts0
                                          else base_parts0);
                            segments = (if take 1 path = ''/'' then str_split path CHR ''/''
                                        else filter_inner (base_parts @ str_split path CHR ''/''));
                            resolved_path0 = fold resolve_segment segments [];
                            resolved_path = (if last segments \<in> {''.'', ''..''}
                                             then resolved_path0 @ [[]] else resolved_path0);
                            joined = str_join ''/'' resolved_path
                        in Inr (urlunparse (scheme, netloc,
                                  (if joined = [] then ''/'' else joined),
                                  params, query, fragment)))))))"

section \<open>Routes\<close>

text \<open>
  The application's routing table in the order \<^verbatim>\<open>app.py\<close> registers it: the mount of the
  static directory, then the three decorated handlers. None of the paths has a parameter, so
  a route serves a request when the method is its own and the path is equal to its path;
  the mount serves the paths below its prefix.
\<close>

datatype http_method = GET | POST

datatype endpoint = static_files | home | scrape_website_endpoint | render_template_endpoint

datatype route = Mount string endpoint | Route http_method string endpoint

definition routes :: "route list" where
  "routes = [Mount ''/static'' static_files,
             Route GET ''/'' home,
             Route POST ''/scrape'' scrape_website_endpoint,
             Route GET ''/render'' render_template_endpoint]"

fun route_endpoint :: "route \<Rightarrow> endpoint" where
  "route_endpoint (Mount p ep) = ep"
| "route_endpoint (Route m p ep) = ep"

fun route_matches :: "http_method \<Rightarrow> string \<Rightarrow> route \<Rightarrow> bool" where
  "route_matches m path (Mount p ep) = (path = p \<or> startswith path (p @ ''/''))"
| "route_matches m path (Route m' p ep) = (m = m' \<and> path = p)"

text \<open>The path of a request target: what stands before the query and the fragment.\<close>

definition url_path :: "string \<Rightarrow> string" where
  "url_path target = takeWhile (\<lambda>c. c \<noteq> CHR ''?'' \<and> c \<noteq> CHR ''#'') target"

text \<open>The endpoint that serves a request, \<open>None\<close> when the router itself answers.\<close>

definition dispatch :: "http_method \<Rightarrow> string \<Rightarrow> endpoint option" where
  "dispatch m target = map_option route_endpoint (find (route_matches m (url_path target)) routes)"

text \<open>
  The file the mount \<^verbatim>\<open>app.mount("/static", StaticFiles(directory=STATIC_DIR))\<close> reads for a
  public path below \<^verbatim>\<open>/static/\<close>.
\<close>

definition static_file :: "string \<Rightarrow> string option" where
  "static_file public_path =
     (if startswith public_path ''/static/''
      then Some (os_path_join STATIC_DIR (drop (length ''/static/'') public_path))
      else None)"

section \<open>Vocabulary of the properties\<close>

text \<open>
  The response an asset tag leads to: \<open>None\<close> when the tag lacks the attribute, when the
  attribute is empty, or when the fetch of the resolved reference fails.
\<close>

definition asset_fetched :: "env \<Rightarrow> string \<Rightarrow> string \<Rightarrow> node \<Rightarrow> response option" where
  "asset_fetched e url attr t =
     (case tag_get t attr of
        None \<Rightarrow> None
      | Some ref \<Rightarrow>
          if ref = [] then None
          else (case fetch e (urljoin e url ref) of Inl ex \<Rightarrow> None | Inr r \<Rightarrow> Some r))"

text \<open>The non-empty references of a list of tags, in order: the discovered assets.\<close>

definition discovered :: "string \<Rightarrow> node list \<Rightarrow> string list" where
  "discovered attr ts = filter (\<lambda>ref. ref \<noteq> []) (List.map_filter (\<lambda>t. tag_get t attr) ts)"

definition fetchable :: "env \<Rightarrow> string \<Rightarrow> string \<Rightarrow> bool" where
  "fetchable e url ref = (case fetch e (urljoin e url ref) of Inl ex \<Rightarrow> False | Inr r \<Rightarrow> True)"

text \<open>The file names and paths the two loops build from an index.\<close>

definition css_filename :: "nat \<Rightarrow> string" where
  "css_filename idx = ''style_'' @ str_nat idx @ ''.css''"

definition js_filename :: "nat \<Rightarrow> string" where
  "js_filename idx = ''script_'' @ str_nat idx @ ''.js''"

definition css_public :: "nat \<Rightarrow> string" where
  "css_public idx = ''/static/css/'' @ css_filename idx"

definition js_public :: "nat \<Rightarrow> string" where
  "js_public idx = ''/static/js/'' @ js_filename idx"

definition css_path :: "nat \<Rightarrow> string" where
  "css_path idx = os_path_join CSS_DIR (css_filename idx)"

definition js_path :: "nat \<Rightarrow> string" where
  "js_path idx = os_path_join JS_DIR (js_filename idx)"

text \<open>
  A loop body that either leaves its state alone or appends one public path and writes one
  file; both bodies of \<^verbatim>\<open>scrape_website\<close> are instances.
\<close>

fun archive_step :: "(node \<Rightarrow> response option) \<Rightarrow> (nat \<Rightarrow> string) \<Rightarrow> (nat \<Rightarrow> string)
    \<Rightarrow> nat \<times> node \<Rightarrow> string list \<times> (string \<rightharpoonup> string) \<Rightarrow> string list \<times> (string \<rightharpoonup> string)" where
  "archive_step g pub path (idx, t) (acc, fs) =
     (case g t of
        None \<Rightarrow> (acc, fs)
      | Some r \<Rightarrow> (acc @ [pub idx], fs(path idx \<mapsto> resp_text r)))"


section \<open>A sample environment\<close>

text \<open>
  One site, \<^verbatim>\<open>x.test\<close>, to run the handlers on. Its page has five stylesheet links (one
  without \<^verbatim>\<open>href\<close>, one with an empty \<^verbatim>\<open>href\<close>, one that answers 404) and four scripts
  (one with an empty \<^verbatim>\<open>src\<close>, one inline, one on which the connection fails).
\<close>

definition sample_deps :: parse_deps where
  "sample_deps = \<lparr>check_bracketed_host = (\<lambda>h. None), normalize_NFKC = (\<lambda>s. s)\<rparr>"

definition sample_url :: string where
  "sample_url = ''http://x.test/dir/page.html''"

definition sample_soup :: "node list" where
  "sample_soup =
     [Tag ''html'' []
        [Tag ''head'' []
           [Tag ''link'' [(''rel'', ''stylesheet'')] [],
            Tag ''link'' [(''rel'', ''stylesheet''), (''href'', ''a/b.css'')] [],
            Tag ''link'' [(''rel'', ''icon''), (''href'', ''/favicon.ico'')] [],
            Tag ''link'' [(''rel'', ''stylesheet''), (''href'', ''/missing.css'')] [],
            Tag ''link'' [(''rel'', ''stylesheet''), (''href'', [])] [],
            Tag ''link'' [(''rel'', ''alternate stylesheet''), (''href'', ''/c.css'')] [],
            Tag ''script'' [(''src'', [])] [],
            Tag ''script'' [] [NavigableString ''inline()''],
            Tag ''script'' [(''src'', ''app.js'')] [],
            Tag ''script'' [(''src'', ''gone.js'')] []],
         Tag ''body'' [] [NavigableString ''hello'']]]"

definition ok_response :: "string \<Rightarrow> string \<Rightarrow> response" where
  "ok_response u body =
     \<lparr>resp_status_code = 200, resp_reason = ''OK'', resp_url = u,
      resp_content = body, resp_text = body\<rparr>"

definition sample_get :: "string \<Rightarrow> request_exception + response" where
  "sample_get u =
     (if u = ''http://x.test/dir/page.html'' then Inr (ok_response u ''<html>'')
      else if u = ''http://x.test/dir/a/b.css'' then Inr (ok_response u ''body{}'')
      else if u = ''http://x.test/c.css'' then Inr (ok_response u ''p{}'')
      else if u = ''http://x.test/dir/app.js'' then Inr (ok_response u ''go()'')
      else if u = ''http://x.test/missing.css''
      then Inr \<lparr>resp_status_code = 404, resp_reason = ''Not Found'', resp_url = u,
                resp_content = [], resp_text = []\<rparr>
      else Inl (RequestException ''Connection refused''))"

fun sample_serialize :: "node \<Rightarrow> string" where
  "sample_serialize (Tag n as cs) =
     ''<'' @ n @ concat (map (\<lambda>(k, v). '' '' @ k @ ''='' @ v) as) @ ''>''
       @ concat (map sample_serialize cs) @ ''</'' @ n @ ''>''"
| "sample_serialize (NavigableString s) = s"

definition hexdigits :: string where
  "hexdigits = ''0123456789abcdefABCDEF''"

definition sample_env :: env where
  "sample_env =
     \<lparr>requests_get = sample_get,
      BeautifulSoup = (\<lambda>content. if content = ''<html>'' then sample_soup else []),
      prettify = (\<lambda>soup. concat (map sample_serialize soup)),
      urljoin = (\<lambda>base ref. case urllib_parse_urljoin sample_deps base ref of
                                Inl err \<Rightarrow> ref | Inr u \<Rightarrow> u),
      new_ObjectId = (\<lambda>docs. replicate (24 - length (str_nat (length docs))) CHR ''0''
                                @ str_nat (length docs)),
      ObjectId = (\<lambda>s. if length s = 24 \<and> list_all (\<lambda>c. c \<in> set hexdigits) s
                       then Some s else None),
      str_ObjectId = (\<lambda>oid. oid)\<rparr>"

definition empty_world :: world where
  "empty_world = \<lparr>files = Map.empty, collection = []\<rparr>"

text \<open>A world that holds a record of the sample page and an older stylesheet.\<close>

definition scraped_world :: world where
  "scraped_world =
     \<lparr>files = [''static/css/style_1.css'' \<mapsto> ''old{}''],
      collection = [\<lparr>doc_id = ''000000000000000000000000'', doc_url = sample_url,
                     doc_html = ''<old>'', doc_css_files = [''/static/css/style_1.css''],
                     doc_js_files = []\<rparr>]\<rparr>"

section \<open>Auxiliary facts\<close>

lemma str_nat_nonempty: "str_nat n \<noteq> []"
  by (subst str_nat.simps) simp

lemma digit_char_inj: "a < 10 \<Longrightarrow> b < 10 \<Longrightarrow> digit_char a = digit_char b \<Longrightarrow> a = b"
proof -
  assume a: "a < 10" and b: "b < 10" and eq: "digit_char a = digit_char b"
  from eq have "(of_char (digit_char a) :: nat) = of_char (digit_char b)" by simp
  with a b show "a = b" by (simp add: digit_char_def)
qed

lemma str_nat_inj: "str_nat m = str_nat n \<Longrightarrow> m = n"
proof (induction m arbitrary: n rule: str_nat.induct)
  case (1 m)
  show ?case
  proof (cases "m < 10")
    case small_m: True
    show ?thesis
    proof (cases "n < 10")
      case True
      with small_m "1.prems" show ?thesis
        by (simp add: str_nat.simps [of m] str_nat.simps [of n] digit_char_inj)
    next
      case False
      with small_m "1.prems" str_nat_nonempty [of "n div 10"] show ?thesis
        by (simp add: str_nat.simps [of m] str_nat.simps [of n])
    qed
  next
    case big_m: False
    show ?thesis
    proof (cases "n < 10")
      case True
      with big_m "1.prems" str_nat_nonempty [of "m div 10"] show ?thesis
        by (simp add: str_nat.simps [of m] str_nat.simps [of n])
    next
      case False
      with big_m "1.prems" have pre: "str_nat (m div 10) = str_nat (n div 10)"
        and dig: "digit_char (m mod 10) = digit_char (n mod 10)"
        by (simp_all add: str_nat.simps [of m] str_nat.simps [of n])
      from "1.IH" [OF big_m pre] have "m div 10 = n div 10" .
      moreover from dig have "m mod 10 = n mod 10" by (auto intro: digit_char_inj)
      ultimately show ?thesis by (metis div_mult_mod_eq)
    qed
  qed
qed

lemma fetch_network_error: "requests_get e u = Inl ex \<Longrightarrow> fetch e u = Inl ex"
  by (simp add: fetch_def)

lemma raise_for_status_error:
  "400 \<le> resp_status_code r \<Longrightarrow> resp_status_code r < 600 \<Longrightarrow> \<exists>ex. raise_for_status r = Inl ex"
  by (simp add: raise_for_status_def)

lemma scrape_website_fetch_Inl:
  "fetch e url = Inl ex \<Longrightarrow>
   scrape_website e url w = (Inl (HTTPException 400 (''Failed to fetch the URL: '' @ str_exc ex)), w)"
  by (simp add: scrape_website_def)

lemma find_None_iff': "find P xs = None \<longleftrightarrow> (\<forall>x \<in> set xs. \<not> P x)"
  by (induction xs) auto


lemma archive_fst:
  "fst (fold (archive_step g pub path) (enumerate n ts) (acc, fs))
     = acc @ map (\<lambda>(idx, t). pub idx) (filter (\<lambda>(idx, t). g t \<noteq> None) (enumerate n ts))"
  by (induction ts arbitrary: n acc fs) (auto split: option.splits)

lemma archive_frame:
  "(\<forall>(idx, t) \<in> set (enumerate n ts). g t \<noteq> None \<longrightarrow> path idx \<noteq> p) \<Longrightarrow>
   snd (fold (archive_step g pub path) (enumerate n ts) (acc, fs)) p = fs p"
  by (induction ts arbitrary: n acc fs) (auto split: option.splits)

lemma enumerate_fst_ge: "(idx, t) \<in> set (enumerate n ts) \<Longrightarrow> n \<le> idx"
  by (simp add: in_set_enumerate_eq)

lemma archive_written:
  assumes "inj path" "(idx, t) \<in> set (enumerate n ts)" "g t = Some r"
  shows "snd (fold (archive_step g pub path) (enumerate n ts) (acc, fs)) (path idx)
           = Some (resp_text r)"
  using assms(2,3)
proof (induction ts arbitrary: n acc fs)
  case Nil
  then show ?case by simp
next
  case (Cons x xs)
  show ?case
  proof (cases "(idx, t) = (n, x)")
    case True
    have later: "\<forall>(j, t') \<in> set (enumerate (Suc n) xs). g t' \<noteq> None \<longrightarrow> path j \<noteq> path idx"
    proof (clarify)
      fix j t' y
      assume "(j, t') \<in> set (enumerate (Suc n) xs)" and "path j = path idx"
      then have "Suc n \<le> j" and "j = idx"
        using enumerate_fst_ge assms(1) by (auto dest: injD)
      with True show False by simp
    qed
    have "snd (fold (archive_step g pub path) (enumerate (Suc n) xs)
                 (acc @ [pub n], fs(path n \<mapsto> resp_text r))) (path idx)
            = (fs(path n \<mapsto> resp_text r)) (path idx)"
      by (rule archive_frame [OF later])
    with True Cons.prems show ?thesis by simp
  next
    case False
    with Cons.prems have "(idx, t) \<in> set (enumerate (Suc n) xs)" by auto
    from Cons.IH [OF this Cons.prems(2)] show ?thesis
      by (cases "g x") simp_all
  qed
qed

lemma save_css_archive:
  "save_css e url = archive_step (asset_fetched e url ''href'') css_public css_path"
  by (rule ext, rule ext)
     (auto simp: asset_fetched_def css_public_def css_path_def css_filename_def Let_def
           split: option.splits sum.splits)

lemma save_js_archive:
  "save_js e url = archive_step (asset_fetched e url ''src'') js_public js_path"
  by (rule ext, rule ext)
     (auto simp: asset_fetched_def js_public_def js_path_def js_filename_def Let_def
           split: option.splits sum.splits)

lemma css_path_eq: "css_path idx = ''static/css/style_'' @ str_nat idx @ ''.css''"
  by (simp add: css_path_def CSS_DIR_def STATIC_DIR_def css_filename_def os_path_join_def)

lemma js_path_eq: "js_path idx = ''static/js/script_'' @ str_nat idx @ ''.js''"
  by (simp add: js_path_def JS_DIR_def STATIC_DIR_def js_filename_def os_path_join_def)

lemma inj_css_path: "inj css_path"
  by (rule injI) (simp add: css_path_eq str_nat_inj)

lemma inj_js_path: "inj js_path"
  by (rule injI) (simp add: js_path_eq str_nat_inj)

lemma css_js_path_neq: "css_path i \<noteq> js_path j"
  by (simp add: css_path_eq js_path_eq)

lemma archive_length:
  "length (filter (\<lambda>(idx, t). g t \<noteq> None) (enumerate n ts)) = length (filter (\<lambda>t. g t \<noteq> None) ts)"
  by (induction ts arbitrary: n) auto

lemma fetched_count:
  "length (filter (\<lambda>t. asset_fetched e url attr t \<noteq> None) ts)
     = length (filter (fetchable e url) (discovered attr ts))"
  by (induction ts)
     (auto simp: asset_fetched_def fetchable_def discovered_def List.map_filter_simps
           split: option.splits sum.splits)

lemma static_file_css: "static_file (css_public idx) = Some (css_path idx)"
  by (simp add: static_file_def css_public_def css_path_eq STATIC_DIR_def os_path_join_def
        css_filename_def)

lemma static_file_js: "static_file (js_public idx) = Some (js_path idx)"
  by (simp add: static_file_def js_public_def js_path_eq STATIC_DIR_def os_path_join_def
        js_filename_def)

lemma find_one_url_None: "find_one_url docs u = None \<longleftrightarrow> (\<forall>d \<in> set docs. doc_url d \<noteq> u)"
  by (simp add: find_one_url_def find_None_iff')

lemma scrape_website_fetched:
  assumes "fetch e url = Inr response"
  shows "scrape_website e url w =
     (let soup = BeautifulSoup e (resp_content response);
          css = fold (save_css e url) (enumerate 0 (link_tags soup)) ([], files w);
          js = fold (save_js e url) (enumerate 0 (script_tags soup)) ([], snd css);
          w2 = w\<lparr>files := snd js\<rparr>
      in if \<exists>d \<in> set (collection w). doc_url d = url
         then (Inl (HTTPException 400 ''This URL has already been scraped.''), w2)
         else (Inr (RedirectResponse (''/render/'' @ str_ObjectId e (new_ObjectId e (collection w))) 303),
               w2\<lparr>collection := collection w @
                   [\<lparr>doc_id = new_ObjectId e (collection w), doc_url = url,
                     doc_html = prettify e soup, doc_css_files = fst css,
                     doc_js_files = fst js\<rparr>]\<rparr>))"
  using assms
  by (auto simp: scrape_website_def Let_def find_one_url_None split: prod.splits)

lemma url_path_render: "url_path (''/render/'' @ s) \<noteq> ''/render''"
  by (simp add: url_path_def)

lemma dispatch_render:
  "dispatch m target = Some render_template_endpoint \<longleftrightarrow> m = GET \<and> url_path target = ''/render''"
  by (auto simp: dispatch_def routes_def split: if_splits)

lemma files_after_loops:
  fixes e url ls ss fs0
  defines "css \<equiv> fold (save_css e url) (enumerate 0 ls) ([], fs0)"
  defines "js \<equiv> fold (save_js e url) (enumerate 0 ss) ([], snd css)"
  shows "(idx, t) \<in> set (enumerate 0 ls) \<Longrightarrow> asset_fetched e url ''href'' t = Some r
           \<Longrightarrow> snd js (css_path idx) = Some (resp_text r)"
    and "(idx, t) \<in> set (enumerate 0 ss) \<Longrightarrow> asset_fetched e url ''src'' t = Some r
           \<Longrightarrow> snd js (js_path idx) = Some (resp_text r)"
    and "(\<forall>(i, t) \<in> set (enumerate 0 ls). asset_fetched e url ''href'' t \<noteq> None \<longrightarrow> css_path i \<noteq> p)
           \<Longrightarrow> (\<forall>(i, t) \<in> set (enumerate 0 ss). asset_fetched e url ''src'' t \<noteq> None \<longrightarrow> js_path i \<noteq> p)
           \<Longrightarrow> snd js p = fs0 p"
proof -
  have js_eq: "js = fold (archive_step (asset_fetched e url ''src'') js_public js_path)
                      (enumerate 0 ss) ([], snd css)"
    by (simp add: js_def save_js_archive)
  have css_eq: "snd css = snd (fold (archive_step (asset_fetched e url ''href'') css_public css_path)
                      (enumerate 0 ls) ([], fs0))"
    by (simp add: css_def save_css_archive)
  {
    assume a: "(idx, t) \<in> set (enumerate 0 ls)" and b: "asset_fetched e url ''href'' t = Some r"
    have "snd js (css_path idx) = snd css (css_path idx)"
      unfolding js_eq by (rule archive_frame) (auto simp: css_js_path_neq [symmetric])
    also have "\<dots> = Some (resp_text r)"
      unfolding css_eq
      by (rule archive_written [where path = css_path and g = "asset_fetched e url ''href''",
            OF inj_css_path a b])
    finally show "snd js (css_path idx) = Some (resp_text r)" .
  }
  {
    assume a: "(idx, t) \<in> set (enumerate 0 ss)" and b: "asset_fetched e url ''src'' t = Some r"
    show "snd js (js_path idx) = Some (resp_text r)"
      unfolding js_eq
      by (rule archive_written [where path = js_path and g = "asset_fetched e url ''src''",
            OF inj_js_path a b])
  }
  {
    assume a: "\<forall>(i, t) \<in> set (enumerate 0 ls). asset_fetched e url ''href'' t \<noteq> None \<longrightarrow> css_path i \<noteq> p"
      and b: "\<forall>(i, t) \<in> set (enumerate 0 ss). asset_fetched e url ''src'' t \<noteq> None \<longrightarrow> js_path i \<noteq> p"
    have "snd js p = snd css p"
      unfolding js_eq by (rule archive_frame [OF b])
    also have "\<dots> = fs0 p"
      unfolding css_eq by (rule archive_frame [OF a])
    finally show "snd js p = fs0 p" .
  }
qed

lemma css_loop_names:
  "fst (fold (save_css e url) (enumerate 0 ls) ([], fs))
     = map (\<lambda>(idx, t). css_public idx)
         (filter (\<lambda>(idx, t). asset_fetched e url ''href'' t \<noteq> None) (enumerate 0 ls))"
  by (simp add: save_css_archive archive_fst)


lemma scrape_website_Inr:
  assumes "scrape_website e url w = (Inr resp, w')"
  obtains response where "fetch e url = Inr response"
    and "\<not> (\<exists>d \<in> set (collection w). doc_url d = url)"
proof -
  from assms obtain response where f: "fetch e url = Inr response"
    by (cases "fetch e url") (auto simp: scrape_website_def)
  moreover from assms have "\<not> (\<exists>d \<in> set (collection w). doc_url d = url)"
    by (auto simp: scrape_website_fetched [OF f] Let_def split: if_splits)
  ultimately show ?thesis using that by blast
qed

lemma scrape_website_stored:
  assumes "scrape_website e url w = (Inr resp, w')"
  obtains response css js where "fetch e url = Inr response"
    and "css = fold (save_css e url)
                 (enumerate 0 (link_tags (BeautifulSoup e (resp_content response)))) ([], files w)"
    and "js = fold (save_js e url)
                (enumerate 0 (script_tags (BeautifulSoup e (resp_content response)))) ([], snd css)"
    and "w' = w\<lparr>files := snd js,
                 collection := collection w @
                   [\<lparr>doc_id = new_ObjectId e (collection w), doc_url = url,
                     doc_html = prettify e (BeautifulSoup e (resp_content response)),
                     doc_css_files = fst css, doc_js_files = fst js\<rparr>]\<rparr>"
proof -
  from assms obtain response where f: "fetch e url = Inr response"
    and nodup: "\<not> (\<exists>d \<in> set (collection w). doc_url d = url)"
    by (rule scrape_website_Inr)
  from assms nodup show ?thesis
    by (intro that [OF f refl refl]) (simp add: scrape_website_fetched [OF f] Let_def)
qed



section \<open>The sample environment, evaluated\<close>

lemma sample_fetch_page: "fetch sample_env sample_url = Inr (ok_response sample_url ''<html>'')"
  by code_simp

lemma sample_links:
  "link_tags (BeautifulSoup sample_env (resp_content (ok_response sample_url ''<html>'')))
     = [Tag ''link'' [(''rel'', ''stylesheet'')] [],
        Tag ''link'' [(''rel'', ''stylesheet''), (''href'', ''a/b.css'')] [],
        Tag ''link'' [(''rel'', ''stylesheet''), (''href'', ''/missing.css'')] [],
        Tag ''link'' [(''rel'', ''stylesheet''), (''href'', [])] [],
        Tag ''link'' [(''rel'', ''alternate stylesheet''), (''href'', ''/c.css'')] []]"
  by code_simp


lemma sample_fetched_css:
  "asset_fetched sample_env sample_url ''href'' (Tag ''link'' [(''rel'', ''stylesheet'')] []) = None"
  "asset_fetched sample_env sample_url ''href''
     (Tag ''link'' [(''rel'', ''stylesheet''), (''href'', ''a/b.css'')] [])
     = Some (ok_response ''http://x.test/dir/a/b.css'' ''body{}'')"
  "asset_fetched sample_env sample_url ''href''
     (Tag ''link'' [(''rel'', ''stylesheet''), (''href'', ''/missing.css'')] []) = None"
  "asset_fetched sample_env sample_url ''href''
     (Tag ''link'' [(''rel'', ''stylesheet''), (''href'', [])] []) = None"
  "asset_fetched sample_env sample_url ''href''
     (Tag ''link'' [(''rel'', ''alternate stylesheet''), (''href'', ''/c.css'')] [])
     = Some (ok_response ''http://x.test/c.css'' ''p{}'')"
  by code_simp+


lemma sample_paths:
  "css_public 1 = ''/static/css/style_1.css''" "css_public 4 = ''/static/css/style_4.css''"
  "css_path 1 = ''static/css/style_1.css''" "css_path 4 = ''static/css/style_4.css''"
  "js_public 1 = ''/static/js/script_1.js''" "js_path 1 = ''static/js/script_1.js''"
  by code_simp+

lemma sample_paths_Suc:
  "css_public (Suc 0) = ''/static/css/style_1.css''"
  "css_public (Suc (Suc (Suc (Suc 0)))) = ''/static/css/style_4.css''"
  "css_path (Suc 0) = ''static/css/style_1.css''"
  "css_path (Suc (Suc (Suc (Suc 0)))) = ''static/css/style_4.css''"
  "js_public (Suc 0) = ''/static/js/script_1.js''"
  "js_path (Suc 0) = ''static/js/script_1.js''"
  by code_simp+

lemma sample_scrape:
  "scrape_website sample_env sample_url empty_world
     = (Inr (RedirectResponse ''/render/000000000000000000000000'' 303),
        snd (scrape_website sample_env sample_url empty_world))"
proof -
  have "fst (scrape_website sample_env sample_url empty_world)
          = Inr (RedirectResponse ''/render/000000000000000000000000'' 303)"
    by code_simp
  then show ?thesis by (simp add: prod_eq_iff)
qed

lemma sample_empty_collection: "collection empty_world = []"
  by (simp add: empty_world_def)

lemma sample_html:
  "prettify sample_env (BeautifulSoup sample_env (resp_content (ok_response sample_url ''<html>'')))
     = ''<html><head><link rel=stylesheet></link><link rel=stylesheet href=a/b.css></link><link rel=icon href=/favicon.ico></link><link rel=stylesheet href=/missing.css></link><link rel=stylesheet href=></link><link rel=alternate stylesheet href=/c.css></link><script src=></script><script>inline()</script><script src=app.js></script><script src=gone.js></script></head><body>hello</body></html>''"
  by code_simp


section \<open>The properties\<close>

subsection \<open>File name indices\<close>




subsection \<open>Duplicate URL\<close>



subsection \<open>Archived stylesheets\<close>

text \<open>
  Claim C3. After a successful scrape the collection has one more document. Its
  \<^verbatim>\<open>css_files\<close> has as many entries as there are fetchable ones among the discovered
  stylesheet references (the non-empty \<^verbatim>\<open>href\<close> values of the stylesheet links); the entries
  are the public paths of the fetched links in document order, nothing standing for a link
  that was not fetched; and the file each entry names under the static mount holds the
  text of the response fetched for that link.
\<close>

theorem css_files_of_stored_record:
  assumes "scrape_website e url w = (Inr resp, w')"
  shows "\<exists>response doc. fetch e url = Inr response \<and> collection w' = collection w @ [doc]
     \<and> length (doc_css_files doc)
         = length (filter (fetchable e url)
             (discovered ''href'' (link_tags (BeautifulSoup e (resp_content response)))))
     \<and> doc_css_files doc
         = map (\<lambda>(idx, t). css_public idx)
             (filter (\<lambda>(idx, t). asset_fetched e url ''href'' t \<noteq> None)
                (enumerate 0 (link_tags (BeautifulSoup e (resp_content response)))))
     \<and> (\<forall>(idx, t) \<in> set (enumerate 0 (link_tags (BeautifulSoup e (resp_content response)))).
          \<forall>r. asset_fetched e url ''href'' t = Some r \<longrightarrow>
            static_file (css_public idx) = Some (css_path idx)
            \<and> files w' (css_path idx) = Some (resp_text r))"
proof -
  from assms obtain response where f: "fetch e url = Inr response"
    and nodup: "\<not> (\<exists>d \<in> set (collection w). doc_url d = url)"
    by (rule scrape_website_Inr)
  define soup where "soup = BeautifulSoup e (resp_content response)"
  define css where "css = fold (save_css e url) (enumerate 0 (link_tags soup)) ([], files w)"
  define js where "js = fold (save_js e url) (enumerate 0 (script_tags soup)) ([], snd css)"
  define doc where "doc = \<lparr>doc_id = new_ObjectId e (collection w), doc_url = url,
     doc_html = prettify e soup, doc_css_files = fst css, doc_js_files = fst js\<rparr>"
  from assms nodup have w': "w' = w\<lparr>files := snd js, collection := collection w @ [doc]\<rparr>"
    by (simp add: scrape_website_fetched [OF f] Let_def soup_def css_def js_def doc_def)
  have names: "doc_css_files doc = map (\<lambda>(idx, t). css_public idx)
       (filter (\<lambda>(idx, t). asset_fetched e url ''href'' t \<noteq> None) (enumerate 0 (link_tags soup)))"
    by (simp add: doc_def css_def css_loop_names)
  have count: "length (doc_css_files doc)
      = length (filter (fetchable e url) (discovered ''href'' (link_tags soup)))"
    by (simp only: names length_map archive_length fetched_count)
  have content: "\<forall>(idx, t) \<in> set (enumerate 0 (link_tags soup)).
          \<forall>r. asset_fetched e url ''href'' t = Some r \<longrightarrow>
            static_file (css_public idx) = Some (css_path idx)
            \<and> files w' (css_path idx) = Some (resp_text r)"
    using files_after_loops(1) [of _ _ "link_tags soup" e url _ "script_tags soup" "files w"]
    by (auto simp: w' js_def css_def static_file_css)
  from f w' names count content show ?thesis
    unfolding soup_def by (intro exI [of _ response] exI [of _ doc]) simp
qed

text \<open>Three discovered stylesheets, two of them fetchable, two entries, two files.\<close>

theorem css_files_of_stored_record_witness:
  "scrape_website sample_env sample_url empty_world
     = (Inr (RedirectResponse ''/render/000000000000000000000000'' 303),
        snd (scrape_website sample_env sample_url empty_world))
   \<and> (\<exists>doc. collection (snd (scrape_website sample_env sample_url empty_world)) = [doc]
        \<and> length (doc_css_files doc) = 2
        \<and> doc_css_files doc = [''/static/css/style_1.css'', ''/static/css/style_4.css''])
   \<and> discovered ''href'' (link_tags (BeautifulSoup sample_env ''<html>''))
        = [''a/b.css'', ''/missing.css'', ''/c.css'']
   \<and> filter (fetchable sample_env sample_url)
        (discovered ''href'' (link_tags (BeautifulSoup sample_env ''<html>'')))
        = [''a/b.css'', ''/c.css'']
   \<and> static_file ''/static/css/style_1.css'' = Some ''static/css/style_1.css''
   \<and> files (snd (scrape_website sample_env sample_url empty_world)) ''static/css/style_1.css''
        = Some ''body{}''
   \<and> static_file ''/static/css/style_4.css'' = Some ''static/css/style_4.css''
   \<and> files (snd (scrape_website sample_env sample_url empty_world)) ''static/css/style_4.css''
        = Some ''p{}''"
proof -
  let ?w' = "snd (scrape_website sample_env sample_url empty_world)"
  from css_files_of_stored_record [OF sample_scrape]
  obtain response doc where f: "fetch sample_env sample_url = Inr response"
    and c: "collection ?w' = collection empty_world @ [doc]"
    and n: "length (doc_css_files doc)
         = length (filter (fetchable sample_env sample_url)
             (discovered ''href'' (link_tags (BeautifulSoup sample_env (resp_content response)))))"
    and css: "doc_css_files doc
         = map (\<lambda>(idx, t). css_public idx)
             (filter (\<lambda>(idx, t). asset_fetched sample_env sample_url ''href'' t \<noteq> None)
                (enumerate 0 (link_tags (BeautifulSoup sample_env (resp_content response)))))"
    and content: "\<forall>(idx, t) \<in> set (enumerate 0
                     (link_tags (BeautifulSoup sample_env (resp_content response)))).
          \<forall>r. asset_fetched sample_env sample_url ''href'' t = Some r \<longrightarrow>
            static_file (css_public idx) = Some (css_path idx)
            \<and> files ?w' (css_path idx) = Some (resp_text r)"
    by blast
  from f have r: "response = ok_response sample_url ''<html>''"
    by (simp add: sample_fetch_page)
  have d: "discovered ''href'' (link_tags (BeautifulSoup sample_env ''<html>''))
        = [''a/b.css'', ''/missing.css'', ''/c.css'']"
    by code_simp
  have m: "filter (fetchable sample_env sample_url)
        (discovered ''href'' (link_tags (BeautifulSoup sample_env ''<html>'')))
        = [''a/b.css'', ''/c.css'']"
    by code_simp
  have rc: "resp_content (ok_response sample_url ''<html>'') = ''<html>''"
    by (simp add: ok_response_def)
  from c have 1: "collection ?w' = [doc]"
    by (simp add: sample_empty_collection)
  from n have 2: "length (doc_css_files doc) = 2"
    unfolding r rc m by simp
  from css have 3: "doc_css_files doc = [''/static/css/style_1.css'', ''/static/css/style_4.css'']"
    unfolding r sample_links by (simp add: sample_fetched_css sample_paths_Suc)
  have t: "resp_text (ok_response u body) = body" for u body
    by (simp add: ok_response_def)
  from content have 4: "static_file ''/static/css/style_1.css'' = Some ''static/css/style_1.css''
      \<and> files ?w' ''static/css/style_1.css'' = Some ''body{}''"
    unfolding r sample_links by (simp add: sample_fetched_css sample_paths_Suc t)
  from content have 5: "static_file ''/static/css/style_4.css'' = Some ''static/css/style_4.css''
      \<and> files ?w' ''static/css/style_4.css'' = Some ''p{}''"
    unfolding r sample_links by (simp add: sample_fetched_css sample_paths_Suc t)
  note 6 = 4 5
  from 1 2 3 6 d m sample_scrape show ?thesis by blast
qed

subsection \<open>Failure of the page fetch\<close>

text \<open>
  Claim C4. When the fetch of the page itself fails, by an exception of \<^verbatim>\<open>requests.get\<close> or
  by a status from 400 to 599 (the statuses \<^verbatim>\<open>raise_for_status\<close> rejects), the request ends
  with \<^verbatim>\<open>HTTPException(400)\<close> whose detail is \<^verbatim>\<open>"Failed to fetch the URL: "\<close> followed by the
  text of the fetch error, and the world is the one the request found: no file is written
  and no document inserted.
\<close>

theorem primary_fetch_failure_aborts:
  assumes "(\<exists>ex. requests_get e url = Inl ex)
           \<or> (\<exists>r. requests_get e url = Inr r \<and> 400 \<le> resp_status_code r \<and> resp_status_code r < 600)"
  shows "\<exists>ex. fetch e url = Inl ex
           \<and> scrape_website e url w
               = (Inl (HTTPException 400 (''Failed to fetch the URL: '' @ str_exc ex)), w)"
proof -
  from assms have "\<exists>ex. fetch e url = Inl ex"
  proof
    assume "\<exists>ex. requests_get e url = Inl ex"
    then show ?thesis by (auto simp: fetch_network_error)
  next
    assume "\<exists>r. requests_get e url = Inr r \<and> 400 \<le> resp_status_code r \<and> resp_status_code r < 600"
    then obtain r where r: "requests_get e url = Inr r"
      and "400 \<le> resp_status_code r" "resp_status_code r < 600" by blast
    then obtain ex where "raise_for_status r = Inl ex"
      using raise_for_status_error by blast
    with r show ?thesis by (simp add: fetch_def)
  qed
  then obtain ex where "fetch e url = Inl ex" ..
  then show ?thesis by (auto simp: scrape_website_fetch_Inl)
qed

text \<open>The page \<^verbatim>\<open>/missing.css\<close> of the sample site answers 404.\<close>

theorem primary_fetch_failure_aborts_witness:
  "(\<exists>r. requests_get sample_env ''http://x.test/missing.css'' = Inr r
        \<and> 400 \<le> resp_status_code r \<and> resp_status_code r < 600)
   \<and> fetch sample_env ''http://x.test/missing.css''
       = Inl (RequestException ''404 Client Error: Not Found for url: http://x.test/missing.css'')
   \<and> scrape_website sample_env ''http://x.test/missing.css'' scraped_world
       = (Inl (HTTPException 400
           ''Failed to fetch the URL: 404 Client Error: Not Found for url: http://x.test/missing.css''),
          scraped_world)"
proof -
  have hyp: "\<exists>r. requests_get sample_env ''http://x.test/missing.css'' = Inr r
        \<and> 400 \<le> resp_status_code r \<and> resp_status_code r < 600"
    by (simp add: sample_env_def sample_get_def)
  have f: "fetch sample_env ''http://x.test/missing.css''
       = Inl (RequestException ''404 Client Error: Not Found for url: http://x.test/missing.css'')"
    by code_simp
  from primary_fetch_failure_aborts [of sample_env "''http://x.test/missing.css''" scraped_world] hyp
  obtain ex where "fetch sample_env ''http://x.test/missing.css'' = Inl ex"
    and "scrape_website sample_env ''http://x.test/missing.css'' scraped_world
          = (Inl (HTTPException 400 (''Failed to fetch the URL: '' @ str_exc ex)), scraped_world)"
    by blast
  with f hyp show ?thesis by simp
qed

subsection \<open>Failure of an asset fetch\<close>



subsection \<open>Errors of the render lookup\<close>



subsection \<open>Stored markup\<close>

text \<open>
  Claim C7. After a successful scrape the new document carries the requested URL, and its
  \<^verbatim>\<open>html\<close> is \<^verbatim>\<open>prettify\<close> of the document parsed from the content of the fetched page: a
  function of the page alone, in which nothing depends on the assets or on where they were
  written, so no reference is replaced by a local path.
\<close>

theorem stored_html_is_prettified_page:
  assumes "scrape_website e url w = (Inr resp, w')"
  shows "\<exists>response doc. fetch e url = Inr response \<and> collection w' = collection w @ [doc]
     \<and> doc_url doc = url
     \<and> doc_html doc = prettify e (BeautifulSoup e (resp_content response))"
proof -
  from assms obtain response css js where f: "fetch e url = Inr response"
    and "css = fold (save_css e url)
                 (enumerate 0 (link_tags (BeautifulSoup e (resp_content response)))) ([], files w)"
    and "js = fold (save_js e url)
                (enumerate 0 (script_tags (BeautifulSoup e (resp_content response)))) ([], snd css)"
    and w': "w' = w\<lparr>files := snd js,
                 collection := collection w @
                   [\<lparr>doc_id = new_ObjectId e (collection w), doc_url = url,
                     doc_html = prettify e (BeautifulSoup e (resp_content response)),
                     doc_css_files = fst css, doc_js_files = fst js\<rparr>]\<rparr>"
    by (rule scrape_website_stored)
  show ?thesis
    by (rule exI [of _ response],
        rule exI [of _ "\<lparr>doc_id = new_ObjectId e (collection w), doc_url = url,
                     doc_html = prettify e (BeautifulSoup e (resp_content response)),
                     doc_css_files = fst css, doc_js_files = fst js\<rparr>"])
       (simp add: f w')
qed

text \<open>The sample page scraped into the empty world: the stored markup keeps its references.\<close>

theorem stored_html_is_prettified_page_witness:
  "scrape_website sample_env sample_url empty_world
     = (Inr (RedirectResponse ''/render/000000000000000000000000'' 303),
        snd (scrape_website sample_env sample_url empty_world))
   \<and> (\<exists>doc. collection (snd (scrape_website sample_env sample_url empty_world)) = [doc]
        \<and> doc_url doc = sample_url
        \<and> doc_html doc = ''<html><head><link rel=stylesheet></link><link rel=stylesheet href=a/b.css></link><link rel=icon href=/favicon.ico></link><link rel=stylesheet href=/missing.css></link><link rel=stylesheet href=></link><link rel=alternate stylesheet href=/c.css></link><script src=></script><script>inline()</script><script src=app.js></script><script src=gone.js></script></head><body>hello</body></html>'')"
proof -
  from stored_html_is_prettified_page [OF sample_scrape]
  obtain response doc where "fetch sample_env sample_url = Inr response"
    and "collection (snd (scrape_website sample_env sample_url empty_world))
           = collection empty_world @ [doc]"
    and "doc_url doc = sample_url"
    and "doc_html doc = prettify sample_env (BeautifulSoup sample_env (resp_content response))"
    by blast
  then have "collection (snd (scrape_website sample_env sample_url empty_world)) = [doc]
        \<and> doc_url doc = sample_url
        \<and> doc_html doc = prettify sample_env
             (BeautifulSoup sample_env (resp_content (ok_response sample_url ''<html>'')))"
    by (simp add: sample_fetch_page empty_world_def)
  then show ?thesis
    unfolding sample_html using sample_scrape by blast
qed

subsection \<open>URL resolution\<close>

text \<open>
  Claim C8. \<^verbatim>\<open>urljoin\<close> resolves \<^verbatim>\<open>a/b.css\<close> against \<^verbatim>\<open>http://x.test/dir/page.html\<close> to
  \<^verbatim>\<open>http://x.test/dir/a/b.css\<close>, and \<^verbatim>\<open>/c.css\<close> to \<^verbatim>\<open>http://x.test/c.css\<close>, whatever the
  two library parameters are.
\<close>

theorem urljoin_examples:
  "urllib_parse_urljoin deps ''http://x.test/dir/page.html'' ''a/b.css''
     = Inr ''http://x.test/dir/a/b.css''
   \<and> urllib_parse_urljoin deps ''http://x.test/dir/page.html'' ''/c.css''
     = Inr ''http://x.test/c.css''"
  by code_simp

text \<open>The two resolutions with the parameters of the sample environment.\<close>

theorem urljoin_examples_witness:
  "urllib_parse_urljoin sample_deps ''http://x.test/dir/page.html'' ''a/b.css''
     = Inr ''http://x.test/dir/a/b.css''
   \<and> urllib_parse_urljoin sample_deps ''http://x.test/dir/page.html'' ''/c.css''
     = Inr ''http://x.test/c.css''"
  by (rule urljoin_examples)

subsection \<open>The redirect and the render route\<close>

text \<open>
  Claim C9. The render handler serves the GET requests whose path is exactly \<^verbatim>\<open>/render\<close>
  and no others; a target \<^verbatim>\<open>/render/\<close> followed by anything is none of them. A successful
  scrape answers with a redirect to \<^verbatim>\<open>/render/\<close> followed by the text of the new
  identifier, so the target of its redirect is never served by the render handler.
\<close>

theorem redirect_not_served_by_render:
  "(dispatch m target = Some render_template_endpoint \<longleftrightarrow> m = GET \<and> url_path target = ''/render'')
   \<and> dispatch m (''/render/'' @ ident) \<noteq> Some render_template_endpoint
   \<and> (scrape_website e url w = (Inr resp, w') \<longrightarrow>
        (\<exists>oid. resp = RedirectResponse (''/render/'' @ str_ObjectId e oid) 303)
        \<and> dispatch m (redirect_url resp) \<noteq> Some render_template_endpoint)"
proof (intro conjI impI)
  show "dispatch m target = Some render_template_endpoint \<longleftrightarrow> m = GET \<and> url_path target = ''/render''"
    by (rule dispatch_render)
  show "dispatch m (''/render/'' @ ident) \<noteq> Some render_template_endpoint"
    by (simp only: dispatch_render url_path_render) simp
next
  assume ok: "scrape_website e url w = (Inr resp, w')"
  then obtain response where f: "fetch e url = Inr response"
    by (cases "fetch e url") (auto simp: scrape_website_def)
  from ok have r: "resp = RedirectResponse (''/render/'' @ str_ObjectId e (new_ObjectId e (collection w))) 303"
    by (auto simp: scrape_website_fetched [OF f] Let_def split: if_splits)
  then show "\<exists>oid. resp = RedirectResponse (''/render/'' @ str_ObjectId e oid) 303" by blast
  from r show "dispatch m (redirect_url resp) \<noteq> Some render_template_endpoint"
    by (simp only: dispatch_render http_response.sel url_path_render) simp
qed

text \<open>The redirect of the sample scrape, and a target the render handler does serve.\<close>

theorem redirect_not_served_by_render_witness:
  "dispatch GET ''/render?template_id=000000000000000000000000'' = Some render_template_endpoint
   \<and> scrape_website sample_env sample_url empty_world
     = (Inr (RedirectResponse ''/render/000000000000000000000000'' 303),
        snd (scrape_website sample_env sample_url empty_world))
   \<and> dispatch GET ''/render/000000000000000000000000'' \<noteq> Some render_template_endpoint"
proof -
  have p: "url_path ''/render?template_id=000000000000000000000000'' = ''/render''"
    by code_simp
  from redirect_not_served_by_render
         [of GET "''/render?template_id=000000000000000000000000''" _ sample_env sample_url
             empty_world "RedirectResponse ''/render/000000000000000000000000'' 303"
             "snd (scrape_website sample_env sample_url empty_world)"]
  have "dispatch GET ''/render?template_id=000000000000000000000000'' = Some render_template_endpoint"
    and "dispatch GET (redirect_url (RedirectResponse ''/render/000000000000000000000000'' 303))
           \<noteq> Some render_template_endpoint"
    using p sample_scrape by blast+
  then show ?thesis using sample_scrape by simp
qed

subsection \<open>Files written before a duplicate rejection\<close>



end
